theory Spec2Isabelle
  imports Main "HOL-Library.Word"
begin

section \<open>The serial transport of jfi\_comm.cpp\<close>

text \<open>
  The class \<open>JFiComm\<close> holds a serial descriptor, a receiver thread, a link identity and a
  receive callback. Every member function is modelled as a function from the object state
  and the operating-system state to the returned value, the new states and the list of
  events the call performs in program order (lock operations, system calls, log lines,
  callback invocations). What the operating system answers to a call is an argument.
\<close>

type_synonym byte = "8 word"

subsection \<open>Line attributes\<close>

text \<open>
  The speed constants of \<open>termios.h\<close> that the source names, and \<open>B0\<close>, the value the
  \<open>memset\<close> of line 110 leaves in the structure. \<open>bps\<close> is the rate a constant stands for.
\<close>

datatype speed_t = B0 | B9600 | B19200 | B38400 | B57600 | B115200

fun bps :: "speed_t \<Rightarrow> int" where
  "bps B0 = 0"
| "bps B9600 = 9600"
| "bps B19200 = 19200"
| "bps B38400 = 38400"
| "bps B57600 = 57600"
| "bps B115200 = 115200"

text \<open>
  \<open>struct termios\<close>, reduced to what \<open>openPort\<close> touches: both speeds, the character
  size in bits (\<open>CSIZE\<close>), \<open>PARENB\<close>, \<open>CSTOPB\<close>, \<open>CLOCAL\<close>, \<open>CREAD\<close>, and one flag
  \<open>processing\<close> that stands for all the input, output and local processing bits that
  \<open>cfmakeraw\<close> clears.
\<close>

record termios =
  c_ispeed :: speed_t
  c_ospeed :: speed_t
  csize :: nat
  parenb :: bool
  cstopb :: bool
  clocal :: bool
  cread :: bool
  processing :: bool

definition cfsetospeed :: "speed_t \<Rightarrow> termios \<Rightarrow> termios" where
  "cfsetospeed speed tty = tty\<lparr>c_ospeed := speed\<rparr>"

definition cfsetispeed :: "speed_t \<Rightarrow> termios \<Rightarrow> termios" where
  "cfsetispeed speed tty = tty\<lparr>c_ispeed := speed\<rparr>"

definition cfmakeraw :: "termios \<Rightarrow> termios" where
  "cfmakeraw tty = tty\<lparr>csize := 8, parenb := False, processing := False\<rparr>"

text \<open>The \<open>switch\<close> of lines 119 to 140: the speed chosen, and whether the default branch ran.\<close>

definition baud_to_speed :: "int \<Rightarrow> speed_t" where
  "baud_to_speed baud_rate =
     (if baud_rate = 9600 then B9600
      else if baud_rate = 19200 then B19200
      else if baud_rate = 38400 then B38400
      else if baud_rate = 57600 then B57600
      else if baud_rate = 115200 then B115200
      else B115200)"

definition baud_supported :: "int \<Rightarrow> bool" where
  "baud_supported baud_rate = (baud_rate \<in> {9600, 19200, 38400, 57600, 115200})"

text \<open>Lines 142 to 152: both speeds, 8N1, local mode with the receiver on, raw mode.\<close>

definition configure_tty :: "int \<Rightarrow> termios \<Rightarrow> termios" where
  "configure_tty baud_rate tty0 =
     (let speed = baud_to_speed baud_rate;
          tty1 = cfsetospeed speed tty0;
          tty2 = cfsetispeed speed tty1;
          tty3 = tty2\<lparr>csize := 8\<rparr>;
          tty4 = tty3\<lparr>parenb := False\<rparr>;
          tty5 = tty4\<lparr>cstopb := False\<rparr>;
          tty6 = tty5\<lparr>clocal := True, cread := True\<rparr>
      in cfmakeraw tty6)"

subsection \<open>The operating system\<close>

text \<open>
  The operating system's side: the descriptors the process holds and the attributes last
  applied to the serial line. \<open>open\<close> hands out the lowest descriptor not in use, as POSIX
  has it, and \<open>-1\<close> when it fails; \<open>close\<close> releases the descriptor.
\<close>

record os_state =
  open_fds :: "nat list"
  line_attrs :: "termios option"

definition lowest_free :: "nat list \<Rightarrow> nat" where
  "lowest_free used =
     (case filter (\<lambda>n. n \<notin> set used) [0..<Suc (length used)] of
        [] \<Rightarrow> Suc (length used)
      | n # _ \<Rightarrow> n)"

definition sys_open :: "bool \<Rightarrow> os_state \<Rightarrow> int \<times> os_state" where
  "sys_open ok os =
     (if ok then
        (let d = lowest_free (open_fds os)
         in (int d, os\<lparr>open_fds := d # open_fds os\<rparr>))
      else (-1, os))"

definition sys_close :: "int \<Rightarrow> os_state \<Rightarrow> os_state" where
  "sys_close d os =
     (if d < 0 then os else os\<lparr>open_fds := removeAll (nat d) (open_fds os)\<rparr>)"

definition sys_tcsetattr :: "termios \<Rightarrow> os_state \<Rightarrow> os_state" where
  "sys_tcsetattr tty os = os\<lparr>line_attrs := Some tty\<rparr>"

text \<open>
  What the operating system answers during one call of \<open>openPort\<close>: whether \<open>open\<close>
  succeeds, the attributes \<open>tcgetattr\<close> reads (\<open>None\<close> when it fails), and whether
  \<open>tcsetattr\<close> succeeds.
\<close>

record os_reply =
  open_ok :: bool
  getattr :: "termios option"
  setattr_ok :: bool

subsection \<open>Events\<close>

type_synonym callback = nat

datatype level = INFO | WARN | ERROR

datatype event =
    Lock
  | Unlock
  | SysOpen string
  | SysTcgetattr int
  | SysTcsetattr int termios
  | SysTcflush int
  | SysClose int
  | SysRead int
  | SysWrite int "byte list"
  | Sleep nat
  | Log level string
  | Spawn
  | Callback callback int "byte list"

subsection \<open>The object\<close>

text \<open>
  The fields of \<open>JFiComm\<close>, named as in the class without the trailing underscore.
  A \<open>std::function\<close> is modelled by the identity of the handler it holds (\<open>None\<close>
  when empty), the thread object by whether it is joinable.
\<close>

record JFiComm =
  fd :: int
  running :: bool
  system_id :: byte
  component_id :: byte
  receive_callback :: "callback option"
  mav_recv_thread :: bool

definition JFiComm_new :: JFiComm where
  "JFiComm_new =
     \<lparr>fd = -1, running = False, system_id = 1, component_id = 1,
      receive_callback = None, mav_recv_thread = False\<rparr>"

subsection \<open>Port Handle\<close>

definition openPort ::
  "os_reply \<Rightarrow> string \<Rightarrow> int \<Rightarrow> JFiComm \<Rightarrow> os_state \<Rightarrow> bool \<times> JFiComm \<times> os_state \<times> event list"
where
  "openPort r port_name baud_rate s os =
     (if fd s \<ge> 0 then (True, s, os, [Lock, Unlock])
      else
        (let (nfd, os1) = sys_open (open_ok r) os;
             s1 = s\<lparr>fd := nfd\<rparr>
         in if nfd < 0 then
              (False, s1, os1, [Lock, SysOpen port_name, Log ERROR ''Failed to open'', Unlock])
            else
              (case getattr r of
                 None \<Rightarrow>
                   (False, s1\<lparr>fd := -1\<rparr>, sys_close nfd os1,
                    [Lock, SysOpen port_name, SysTcgetattr nfd, Log ERROR ''tcgetattr failed'',
                     SysClose nfd, Unlock])
               | Some tty0 \<Rightarrow>
                   (let tty = configure_tty baud_rate tty0;
                        warn = (if baud_supported baud_rate then []
                                else [Log WARN ''Unsupported baud rate, defaulting to 115200''])
                    in if \<not> setattr_ok r then
                         (False, s1\<lparr>fd := -1\<rparr>, sys_close nfd os1,
                          [Lock, SysOpen port_name, SysTcgetattr nfd] @ warn @
                          [SysTcsetattr nfd tty, Log ERROR ''tcsetattr failed'', SysClose nfd,
                           Unlock])
                       else
                         (True, s1, sys_tcsetattr tty os1,
                          [Lock, SysOpen port_name, SysTcgetattr nfd] @ warn @
                          [SysTcsetattr nfd tty, SysTcflush nfd, Log INFO ''Opened port'',
                           Unlock])))))"


text \<open>
  \<open>writeData\<close>: \<open>written\<close> is what \<open>write\<close> returns when it is called. The object and the
  descriptor table do not change, so only the events are returned.
\<close>

definition writeData :: "int \<Rightarrow> JFiComm \<Rightarrow> byte list \<Rightarrow> event list" where
  "writeData written s data =
     (if fd s < 0 then [Lock, Unlock]
      else if written < 0 then
        [Lock, SysWrite (fd s) data, Log ERROR ''writeData failed'', Unlock]
      else [Lock, SysWrite (fd s) data, Unlock])"

subsection \<open>Frame Codec\<close>

text \<open>
  Modelled from the spec: the header \<open>jfi_comm.hpp\<close> and the generated protocol headers
  it includes are not among the sources, so the constants of the wire format are
  parameters: the start-of-frame marker, the message id \<open>MAVLINK_MSG_ID_JFI\<close> of the one
  recognized message type, the capacity \<open>sizeof(jfi_msg.data)\<close> of the payload buffer, and
  the checksum algorithm. The spec (sections 1 and 6) treats the byte layout as given.
\<close>

record wire =
  STX :: byte
  MSG_ID_JFI :: byte
  DATA_CAP :: nat
  checksum :: "byte list \<Rightarrow> 16 word"

text \<open>
  Modelled from the spec: \<open>mavlink_jfi_t\<close>, the one recognized message (section 6: a tag
  of one byte, a payload length, and a payload buffer of fixed capacity).
\<close>

record mavlink_jfi_t =
  jfi_tid :: byte
  jfi_len :: byte
  jfi_data :: "byte list"

text \<open>
  Modelled from the spec: \<open>mavlink_message_t\<close>, one frame (glossary: a message id, the
  sender identity and a payload; section 4.2: a length field).
\<close>

record mavlink_message_t =
  msg_len :: byte
  sysid :: byte
  compid :: byte
  msgid :: byte
  payload :: "byte list"

text \<open>
  Modelled from the spec: \<open>mavlink_msg_jfi_encode\<close> (section 4.2, encode: stamps the frame's
  own message-type identifier and fills the identity fields). The message body is the tag,
  the length and the whole payload buffer; the length field counts the body's bytes.
\<close>

definition mavlink_msg_jfi_encode :: "wire \<Rightarrow> byte \<Rightarrow> byte \<Rightarrow> mavlink_jfi_t \<Rightarrow> mavlink_message_t" where
  "mavlink_msg_jfi_encode w sys_id comp_id jfi =
     (let body = jfi_tid jfi # jfi_len jfi # jfi_data jfi
      in \<lparr>msg_len = of_nat (length body), sysid = sys_id, compid = comp_id,
          msgid = MSG_ID_JFI w, payload = body\<rparr>)"

definition header_bytes :: "mavlink_message_t \<Rightarrow> byte list" where
  "header_bytes m = [msg_len m, sysid m, compid m, msgid m]"

definition checksum_bytes :: "wire \<Rightarrow> byte list \<Rightarrow> byte list" where
  "checksum_bytes w bs = [ucast (checksum w bs), ucast (drop_bit 8 (checksum w bs))]"

text \<open>
  Modelled from the spec: \<open>mavlink_msg_to_send_buffer\<close> (section 4.2, encode: computes and
  appends checksum/framing bytes): the start marker, the header, the payload, and the
  checksum of header and payload, low byte first.
\<close>

definition mavlink_msg_to_send_buffer :: "wire \<Rightarrow> mavlink_message_t \<Rightarrow> byte list" where
  "mavlink_msg_to_send_buffer w m =
     STX w # header_bytes m @ payload m @ checksum_bytes w (header_bytes m @ payload m)"

text \<open>
  Modelled from the spec: the parse state of the codec (section 3: an in-progress partial
  frame and a state machine cursor; section 4.2: the states waiting-for-start,
  reading-header, reading-payload, verifying-checksum).
\<close>

datatype parse_state = WaitingForStart | ReadingHeader | ReadingPayload | VerifyingChecksum

record mavlink_status_t =
  cursor :: parse_state
  hdr_buf :: "byte list"
  payload_buf :: "byte list"
  ck_buf :: "byte list"

definition parser_idle :: mavlink_status_t where
  "parser_idle = \<lparr>cursor = WaitingForStart, hdr_buf = [], payload_buf = [], ck_buf = []\<rparr>"

definition expected_len :: "mavlink_status_t \<Rightarrow> nat" where
  "expected_len p = (case hdr_buf p of [] \<Rightarrow> 0 | l # _ \<Rightarrow> unat l)"

definition parsed_message :: "mavlink_status_t \<Rightarrow> mavlink_message_t option" where
  "parsed_message p =
     (case hdr_buf p of
        [l, s, c, m] \<Rightarrow>
          Some \<lparr>msg_len = l, sysid = s, compid = c, msgid = m, payload = payload_buf p\<rparr>
      | _ \<Rightarrow> None)"

text \<open>
  Modelled from the spec: \<open>mavlink_parse_char\<close> (section 4.2: an incremental,
  byte-at-a-time feed function \<open>parse(byte) -> Option<Frame>\<close>; a sequence that fails
  validation emits no frame and the cursor collapses back to waiting-for-start). The length
  field says how many payload bytes follow; length and message id are covered by the
  checksum. A frame of any message id is returned: filtering is the Receiver Loop's.
\<close>

definition mavlink_parse_char ::
  "wire \<Rightarrow> byte \<Rightarrow> mavlink_status_t \<Rightarrow> mavlink_message_t option \<times> mavlink_status_t"
where
  "mavlink_parse_char w c p =
     (case cursor p of
        WaitingForStart \<Rightarrow>
          (if c = STX w then (None, parser_idle\<lparr>cursor := ReadingHeader\<rparr>) else (None, p))
      | ReadingHeader \<Rightarrow>
          (let p1 = p\<lparr>hdr_buf := hdr_buf p @ [c]\<rparr>
           in if length (hdr_buf p1) < 4 then (None, p1)
              else if expected_len p1 = 0 then (None, p1\<lparr>cursor := VerifyingChecksum\<rparr>)
              else (None, p1\<lparr>cursor := ReadingPayload\<rparr>))
      | ReadingPayload \<Rightarrow>
          (let p1 = p\<lparr>payload_buf := payload_buf p @ [c]\<rparr>
           in if length (payload_buf p1) < expected_len p1 then (None, p1)
              else (None, p1\<lparr>cursor := VerifyingChecksum\<rparr>))
      | VerifyingChecksum \<Rightarrow>
          (let p1 = p\<lparr>ck_buf := ck_buf p @ [c]\<rparr>
           in if length (ck_buf p1) < 2 then (None, p1)
              else if ck_buf p1 = checksum_bytes w (hdr_buf p1 @ payload_buf p1)
              then (parsed_message p1, parser_idle)
              else (None, parser_idle)))"

text \<open>
  Modelled from the spec: \<open>mavlink_msg_jfi_decode\<close>, the inverse of the message body of
  \<open>mavlink_msg_jfi_encode\<close>: the first byte is the tag, the second the length, the rest
  the payload buffer. A body shorter than the message is filled with zero bytes, a longer
  one is cut.
\<close>

definition mavlink_msg_jfi_decode :: "wire \<Rightarrow> mavlink_message_t \<Rightarrow> mavlink_jfi_t" where
  "mavlink_msg_jfi_decode w m =
     (case take (2 + DATA_CAP w) (payload m @ replicate (2 + DATA_CAP w) 0) of
        t # l # d \<Rightarrow> \<lparr>jfi_tid = t, jfi_len = l, jfi_data = d\<rparr>
      | _ \<Rightarrow> \<lparr>jfi_tid = 0, jfi_len = 0, jfi_data = replicate (DATA_CAP w) 0\<rparr>)"

subsection \<open>Transport Facade: send\<close>

text \<open>
  Lines 181 to 187 of \<open>send\<close>. The structure \<open>jfi_msg\<close> is not initialized, so the bytes
  of its buffer that \<open>memcpy\<close> does not write are whatever the stack held: \<open>uninit\<close> gives
  them by position. The assignment to the one-byte length field narrows \<open>copy_len\<close>.
\<close>

definition send_jfi_msg :: "wire \<Rightarrow> (nat \<Rightarrow> byte) \<Rightarrow> byte \<Rightarrow> byte list \<Rightarrow> mavlink_jfi_t" where
  "send_jfi_msg w uninit tid data =
     (let copy_len = min (length data) (DATA_CAP w)
      in \<lparr>jfi_tid = tid, jfi_len = of_nat copy_len,
          jfi_data = take copy_len data @ map uninit [copy_len..<DATA_CAP w]\<rparr>)"

text \<open>Lines 190 to 193: the bytes \<open>send\<close> hands to \<open>writeData\<close>.\<close>

definition send_buffer :: "wire \<Rightarrow> (nat \<Rightarrow> byte) \<Rightarrow> JFiComm \<Rightarrow> byte \<Rightarrow> byte list \<Rightarrow> byte list" where
  "send_buffer w uninit s tid data =
     mavlink_msg_to_send_buffer w
       (mavlink_msg_jfi_encode w (system_id s) (component_id s) (send_jfi_msg w uninit tid data))"

definition send :: "wire \<Rightarrow> (nat \<Rightarrow> byte) \<Rightarrow> int \<Rightarrow> JFiComm \<Rightarrow> byte \<Rightarrow> byte list \<Rightarrow> event list" where
  "send w uninit written s tid data =
     writeData written s (send_buffer w uninit s tid data) @ [Log INFO ''PUSH'']"

subsection \<open>Receiver Loop\<close>

text \<open>
  Lines 80 to 90, run for each frame the codec returns. The payload vector is built from
  \<open>jfi_msg_.len\<close> bytes of the buffer; a length field above the capacity makes that read
  run past the buffer, which C++ leaves undefined: the model stops with an error there.
  The callback takes the tag as an \<open>int\<close>.
\<close>

datatype error = OutOfBoundsRead

definition on_message :: "wire \<Rightarrow> callback option \<Rightarrow> mavlink_message_t \<Rightarrow> error + event list" where
  "on_message w cb message =
     (if msgid message = MSG_ID_JFI w then
        (let jfi = mavlink_msg_jfi_decode w message
         in if DATA_CAP w < unat (jfi_len jfi) then Inl OutOfBoundsRead
            else
              (case cb of
                 None \<Rightarrow> Inr [Log INFO ''RECV'']
               | Some k \<Rightarrow>
                   Inr [Log INFO ''RECV'',
                        Callback k (uint (jfi_tid jfi)) (take (unat (jfi_len jfi)) (jfi_data jfi))]))
      else Inr [Log WARN ''Unknown message ID''])"

text \<open>The \<open>for\<close> loop of lines 78 to 92 over the bytes read.\<close>

fun recv_bytes ::
  "wire \<Rightarrow> callback option \<Rightarrow> mavlink_status_t \<Rightarrow> byte list \<Rightarrow> error + (mavlink_status_t \<times> event list)"
where
  "recv_bytes w cb p [] = Inr (p, [])"
| "recv_bytes w cb p (c # cs) =
     (case mavlink_parse_char w c p of
        (None, p1) \<Rightarrow> recv_bytes w cb p1 cs
      | (Some message, p1) \<Rightarrow>
          (case on_message w cb message of
             Inl e \<Rightarrow> Inl e
           | Inr evs \<Rightarrow>
               (case recv_bytes w cb p1 cs of
                  Inl e \<Rightarrow> Inl e
                | Inr (p2, evs2) \<Rightarrow> Inr (p2, evs @ evs2))))"

text \<open>
  One iteration of the \<open>while\<close> loop of lines 55 to 93, entered with \<open>running_\<close> true.
  \<open>rd\<close> is what \<open>read\<close> does when it is called: it fails, or it returns bytes (none, or
  at most the 256 of the buffer). The lock is held for the test of the descriptor only;
  in the closed branch the sleep happens before the guard's scope is left.
\<close>

datatype read_result = ReadError | ReadBytes "byte list"

definition recvMavLoop_iteration ::
  "wire \<Rightarrow> read_result \<Rightarrow> JFiComm \<Rightarrow> mavlink_status_t \<Rightarrow> error + (mavlink_status_t \<times> event list)"
where
  "recvMavLoop_iteration w rd s p =
     (if fd s < 0 then Inr (p, [Lock, Sleep 10, Unlock])
      else
        (case rd of
           ReadError \<Rightarrow>
             Inr (p, [Lock, Unlock, SysRead (fd s), Log ERROR ''read() failed'', Sleep 10])
         | ReadBytes bs \<Rightarrow>
             (let rx = take 256 bs
              in if rx = [] then Inr (p, [Lock, Unlock, SysRead (fd s), Sleep 5])
                 else
                   (case recv_bytes w (receive_callback s) p rx of
                      Inl e \<Rightarrow> Inl e
                    | Inr (p1, evs) \<Rightarrow> Inr (p1, [Lock, Unlock, SysRead (fd s)] @ evs)))))"

subsection \<open>Transport Facade: init\<close>

text \<open>
  \<open>init\<close> either returns a boolean or ends the process: assigning a new thread to a thread
  object that is still joinable calls \<open>std::terminate\<close>. The right-hand side of the
  assignment of line 42 is evaluated first, so the new thread is spawned in both cases.
\<close>

datatype 'a outcome = Returns 'a | Terminate

definition init ::
  "os_reply \<Rightarrow> callback option \<Rightarrow> string \<Rightarrow> int \<Rightarrow> byte \<Rightarrow> byte \<Rightarrow> JFiComm \<Rightarrow> os_state
   \<Rightarrow> bool outcome \<times> JFiComm \<times> os_state \<times> event list"
where
  "init r recv_cb port_name baud_rate sys_id comp_id s os =
     (let s1 = s\<lparr>receive_callback := recv_cb, system_id := sys_id, component_id := comp_id\<rparr>;
          (ret, s2, os2, evs) = openPort r port_name baud_rate s1 os
      in if ret then
           (let s3 = s2\<lparr>running := True\<rparr>
            in if mav_recv_thread s3 then (Terminate, s3, os2, evs @ [Spawn])
               else (Returns True, s3\<lparr>mav_recv_thread := True\<rparr>, os2, evs @ [Spawn]))
         else
           (Returns False, s2, os2,
            evs @ [Log ERROR ''Failed to open port. Receiver thread not started.'']))"

subsection \<open>Lock discipline\<close>



subsection \<open>A concrete instance\<close>

text \<open>
  An instance of the wire parameters for evaluating the model: a four-byte payload buffer
  and the sum of the bytes as checksum.
\<close>

definition example_wire :: wire where
  "example_wire =
     \<lparr>STX = 254, MSG_ID_JFI = 200, DATA_CAP = 4,
      checksum = (\<lambda>bs. sum_list (map ucast bs))\<rparr>"

definition example_tty :: termios where
  "example_tty =
     \<lparr>c_ispeed = B9600, c_ospeed = B9600, csize = 7, parenb = True, cstopb = False,
      clocal = False, cread = False, processing = True\<rparr>"

section \<open>Properties of the Port Handle\<close>

lemma lowest_free_fresh: "lowest_free used \<notin> set used"
proof -
  let ?c = "filter (\<lambda>n. n \<notin> set used) [0..<Suc (length used)]"
  have "?c \<noteq> []"
  proof
    assume "?c = []"
    then have "\<forall>n \<in> set [0..<Suc (length used)]. n \<in> set used"
      by (simp only: filter_empty_conv) blast
    then have "{0..<Suc (length used)} \<subseteq> set used"
      by (auto simp del: upt_Suc)
    then have "card {0..<Suc (length used)} \<le> card (set used)"
      by (intro card_mono) simp_all
    moreover have "card (set used) \<le> length used"
      by (rule card_length)
    ultimately show False by simp
  qed
  then obtain n ns where c: "?c = n # ns"
    by (cases ?c) auto
  then have "n \<in> set ?c" by (simp del: upt_Suc)
  then have "n \<notin> set used" by (simp only: set_filter) blast
  with c show ?thesis by (simp add: lowest_free_def del: upt_Suc)
qed

lemma sys_open_close:
  "sys_open True os = (d, os1) \<Longrightarrow> sys_close d os1 = os"
  using lowest_free_fresh [of "open_fds os"]
  by (auto simp: sys_open_def sys_close_def Let_def)

lemma sys_open_fail: "sys_open False os = (-1, os)"
  by (simp add: sys_open_def)

lemma sys_open_ok_nonneg: "sys_open True os = (d, os1) \<Longrightarrow> 0 \<le> d"
  by (auto simp: sys_open_def Let_def)

lemma bps_baud_to_speed:
  "bps (baud_to_speed baud_rate) = (if baud_supported baud_rate then baud_rate else 115200)"
  by (simp add: baud_to_speed_def baud_supported_def)

lemma configure_tty_speeds:
  "c_ospeed (configure_tty baud_rate tty0) = baud_to_speed baud_rate"
  "c_ispeed (configure_tty baud_rate tty0) = baud_to_speed baud_rate"
  by (simp_all add: configure_tty_def Let_def cfsetospeed_def cfsetispeed_def cfmakeraw_def)

lemma openPort_closed_open_fails:
  "fd s < 0 \<Longrightarrow> \<not> open_ok r \<Longrightarrow>
   openPort r port_name baud_rate s os =
     (False, s\<lparr>fd := -1\<rparr>, os,
      [Lock, SysOpen port_name, Log ERROR ''Failed to open'', Unlock])"
  by (simp add: openPort_def sys_open_def)

lemma openPort_closed_getattr_fails:
  assumes "fd s < 0" "open_ok r" "getattr r = None"
  shows "\<exists>evs. openPort r port_name baud_rate s os = (False, s\<lparr>fd := -1\<rparr>, os, evs)"
proof -
  obtain d os1 where o: "sys_open True os = (d, os1)"
    by (cases "sys_open True os")
  from o have "0 \<le> d" by (rule sys_open_ok_nonneg)
  moreover from o have "sys_close d os1 = os" by (rule sys_open_close)
  ultimately show ?thesis
    using assms o by (simp add: openPort_def)
qed

lemma openPort_closed_setattr_fails:
  assumes "fd s < 0" "open_ok r" "getattr r = Some tty0" "\<not> setattr_ok r"
  shows "\<exists>evs. openPort r port_name baud_rate s os = (False, s\<lparr>fd := -1\<rparr>, os, evs)"
proof -
  obtain d os1 where o: "sys_open True os = (d, os1)"
    by (cases "sys_open True os")
  from o have "0 \<le> d" by (rule sys_open_ok_nonneg)
  moreover from o have "sys_close d os1 = os" by (rule sys_open_close)
  ultimately show ?thesis
    using assms o by (simp add: openPort_def Let_def)
qed

lemma openPort_closed_succeeds:
  assumes "fd s < 0" "open_ok r" "getattr r = Some tty0" "setattr_ok r"
  shows "openPort r port_name baud_rate s os =
     (True, s\<lparr>fd := fst (sys_open True os)\<rparr>,
      sys_tcsetattr (configure_tty baud_rate tty0) (snd (sys_open True os)),
      [Lock, SysOpen port_name, SysTcgetattr (fst (sys_open True os))] @
      (if baud_supported baud_rate then []
       else [Log WARN ''Unsupported baud rate, defaulting to 115200'']) @
      [SysTcsetattr (fst (sys_open True os)) (configure_tty baud_rate tty0),
       SysTcflush (fst (sys_open True os)), Log INFO ''Opened port'', Unlock])"
proof -
  obtain d os1 where o: "sys_open True os = (d, os1)"
    by (cases "sys_open True os")
  from o have "0 \<le> d" by (rule sys_open_ok_nonneg)
  then show ?thesis
    using assms o by (simp add: openPort_def Let_def)
qed

lemma openPort_cases:
  "fd s \<ge> 0 \<or> \<not> open_ok r \<or> getattr r = None
   \<or> (\<exists>tty0. getattr r = Some tty0 \<and> \<not> setattr_ok r)
   \<or> (\<exists>tty0. getattr r = Some tty0 \<and> setattr_ok r \<and> open_ok r \<and> fd s < 0)"
  by (cases "getattr r") auto

lemma openPort_False:
  assumes "openPort r port_name baud_rate s os = (False, s', os', evs)"
  shows "s' = s\<lparr>fd := -1\<rparr> \<and> os' = os"
proof -
  consider (held) "fd s \<ge> 0"
    | (a) "fd s < 0" "\<not> open_ok r"
    | (b) "fd s < 0" "open_ok r" "getattr r = None"
    | (c) tty0 where "fd s < 0" "open_ok r" "getattr r = Some tty0" "\<not> setattr_ok r"
    | (d) tty0 where "fd s < 0" "open_ok r" "getattr r = Some tty0" "setattr_ok r"
    using openPort_cases [of s r] by force
  then show ?thesis
  proof cases
    case held
    with assms show ?thesis by (simp add: openPort_def)
  next
    case a
    with assms openPort_closed_open_fails [of s r port_name baud_rate os]
    show ?thesis by simp
  next
    case b
    with assms openPort_closed_getattr_fails [of s r port_name baud_rate os]
    show ?thesis by auto
  next
    case c
    with assms openPort_closed_setattr_fails [of s r tty0 port_name baud_rate os]
    show ?thesis by auto
  next
    case d
    with assms openPort_closed_succeeds [of s r tty0 port_name baud_rate os]
    show ?thesis by simp
  qed
qed

text \<open>
  C8. Calling \<open>openPort\<close> while a descriptor is held returns true at once: the object and
  the operating-system state (descriptors held, line attributes) are unchanged, and the
  call performs no system call, only taking and releasing the lock.
\<close>

theorem C8_open_when_held:
  "0 \<le> fd s \<Longrightarrow> openPort r port_name baud_rate s os = (True, s, os, [Lock, Unlock])"
  by (simp add: openPort_def)

theorem C8_open_when_held_witness:
  "0 \<le> fd (JFiComm_new\<lparr>fd := 3\<rparr>) \<and>
   openPort \<lparr>open_ok = True, getattr = None, setattr_ok = True\<rparr> ''/dev/ttyUSB0'' 9600
     (JFiComm_new\<lparr>fd := 3\<rparr>) \<lparr>open_fds = [3, 2, 1, 0], line_attrs = None\<rparr>
   = (True, JFiComm_new\<lparr>fd := 3\<rparr>, \<lparr>open_fds = [3, 2, 1, 0], line_attrs = None\<rparr>,
      [Lock, Unlock])"
  using C8_open_when_held [of "JFiComm_new\<lparr>fd := 3\<rparr>"
      "\<lparr>open_ok = True, getattr = None, setattr_ok = True\<rparr>" "''/dev/ttyUSB0''" 9600
      "\<lparr>open_fds = [3, 2, 1, 0], line_attrs = None\<rparr>"]
  by (simp add: JFiComm_new_def)

text \<open>
  C5. When a step of an open attempt fails (the \<open>open\<close> call, \<open>tcgetattr\<close> or
  \<open>tcsetattr\<close>), \<open>openPort\<close> returns false; and whenever \<open>openPort\<close> returns false, the
  descriptor field is \<open>-1\<close>, nothing else in the object has changed, and the operating
  system holds exactly the descriptors it held before the call, so none is leaked.
\<close>

theorem C5_open_failure_leaves_closed:
  "(fd s < 0 \<and> (\<not> open_ok r \<or> getattr r = None \<or> \<not> setattr_ok r) \<longrightarrow>
      fst (openPort r port_name baud_rate s os) = False) \<and>
   (\<forall>s' os' evs. openPort r port_name baud_rate s os = (False, s', os', evs) \<longrightarrow>
      fd s' = -1 \<and> s' = s\<lparr>fd := -1\<rparr> \<and> open_fds os' = open_fds os \<and> os' = os)"
proof (intro conjI impI allI)
  assume a: "fd s < 0 \<and> (\<not> open_ok r \<or> getattr r = None \<or> \<not> setattr_ok r)"
  show "fst (openPort r port_name baud_rate s os) = False"
  proof (cases "open_ok r")
    case False
    with a openPort_closed_open_fails [of s r port_name baud_rate os]
    show ?thesis by simp
  next
    case True
    show ?thesis
    proof (cases "getattr r")
      case None
      with a True openPort_closed_getattr_fails [of s r port_name baud_rate os]
      show ?thesis by auto
    next
      case (Some tty0)
      with a True openPort_closed_setattr_fails [of s r tty0 port_name baud_rate os]
      show ?thesis by auto
    qed
  qed
next
  fix s' os' evs
  assume "openPort r port_name baud_rate s os = (False, s', os', evs)"
  then have "s' = s\<lparr>fd := -1\<rparr> \<and> os' = os" by (rule openPort_False)
  then show "fd s' = -1" "s' = s\<lparr>fd := -1\<rparr>" "open_fds os' = open_fds os" "os' = os"
    by simp_all
qed

theorem C5_open_failure_leaves_closed_witness:
  "fd JFiComm_new < 0 \<and>
   openPort \<lparr>open_ok = True, getattr = Some example_tty, setattr_ok = False\<rparr>
       ''/dev/ttyUSB0'' 9600 JFiComm_new \<lparr>open_fds = [2, 1, 0], line_attrs = None\<rparr> =
     (False, JFiComm_new, \<lparr>open_fds = [2, 1, 0], line_attrs = None\<rparr>,
      [Lock, SysOpen ''/dev/ttyUSB0'', SysTcgetattr 3,
       SysTcsetattr 3 (configure_tty 9600 example_tty), Log ERROR ''tcsetattr failed'',
       SysClose 3, Unlock])"
proof -
  have "lowest_free [2, 1, 0] = 3"
    by code_simp
  then have l: "lowest_free [2, Suc 0, 0] = 3"
    by simp
  have o: "openPort \<lparr>open_ok = True, getattr = Some example_tty, setattr_ok = False\<rparr>
       ''/dev/ttyUSB0'' 9600 JFiComm_new \<lparr>open_fds = [2, 1, 0], line_attrs = None\<rparr> =
     (False, JFiComm_new, \<lparr>open_fds = [2, 1, 0], line_attrs = None\<rparr>,
      [Lock, SysOpen ''/dev/ttyUSB0'', SysTcgetattr 3,
       SysTcsetattr 3 (configure_tty 9600 example_tty), Log ERROR ''tcsetattr failed'',
       SysClose 3, Unlock])"
    by (simp add: openPort_def sys_open_def sys_close_def l JFiComm_new_def baud_supported_def
        Let_def)
  show ?thesis
    using C5_open_failure_leaves_closed [of JFiComm_new
        "\<lparr>open_ok = True, getattr = Some example_tty, setattr_ok = False\<rparr>"
        "''/dev/ttyUSB0''" 9600 "\<lparr>open_fds = [2, 1, 0], line_attrs = None\<rparr>"] o
    by (simp add: JFiComm_new_def)
qed

text \<open>
  C4. When a closed port is opened and the system calls succeed, the attributes passed to
  \<open>tcsetattr\<close> and left applied to the line carry, as input and as output speed, the
  requested rate if it is one of 9600, 19200, 38400, 57600, 115200, and 115200 otherwise;
  \<open>openPort\<close> returns true in both cases, and the warning is logged exactly for a rate
  outside that set.
\<close>

theorem C4_applied_baud_rate:
  assumes "fd s < 0" "open_ok r" "getattr r = Some tty0" "setattr_ok r"
  shows "\<exists>s' os' evs tty.
           openPort r port_name baud_rate s os = (True, s', os', evs) \<and>
           line_attrs os' = Some tty \<and>
           SysTcsetattr (fd s') tty \<in> set evs \<and>
           bps (c_ospeed tty) =
             (if baud_rate \<in> {9600, 19200, 38400, 57600, 115200} then baud_rate else 115200) \<and>
           bps (c_ispeed tty) =
             (if baud_rate \<in> {9600, 19200, 38400, 57600, 115200} then baud_rate else 115200) \<and>
           (Log WARN ''Unsupported baud rate, defaulting to 115200'' \<in> set evs \<longleftrightarrow>
              baud_rate \<notin> {9600, 19200, 38400, 57600, 115200})"
proof -
  let ?tty = "configure_tty baud_rate tty0"
  have sp: "bps (c_ospeed ?tty) =
             (if baud_rate \<in> {9600, 19200, 38400, 57600, 115200} then baud_rate else 115200)"
        "bps (c_ispeed ?tty) =
             (if baud_rate \<in> {9600, 19200, 38400, 57600, 115200} then baud_rate else 115200)"
    by (simp_all only: configure_tty_speeds bps_baud_to_speed baud_supported_def)
  have "openPort r port_name baud_rate s os =
     (True, s\<lparr>fd := fst (sys_open True os)\<rparr>,
      sys_tcsetattr ?tty (snd (sys_open True os)),
      [Lock, SysOpen port_name, SysTcgetattr (fst (sys_open True os))] @
      (if baud_supported baud_rate then []
       else [Log WARN ''Unsupported baud rate, defaulting to 115200'']) @
      [SysTcsetattr (fst (sys_open True os)) ?tty,
       SysTcflush (fst (sys_open True os)), Log INFO ''Opened port'', Unlock])"
    using assms by (rule openPort_closed_succeeds)
  moreover have "line_attrs (sys_tcsetattr ?tty (snd (sys_open True os))) = Some ?tty"
    by (simp add: sys_tcsetattr_def)
  ultimately show ?thesis
    using sp by (auto simp: baud_supported_def)
qed

theorem C4_applied_baud_rate_witness:
  "fd JFiComm_new < 0 \<and>
   openPort \<lparr>open_ok = True, getattr = Some example_tty, setattr_ok = True\<rparr>
       ''/dev/ttyUSB0'' 57600 JFiComm_new \<lparr>open_fds = [2, 1, 0], line_attrs = None\<rparr> =
     (True, JFiComm_new\<lparr>fd := 3\<rparr>,
      \<lparr>open_fds = [3, 2, 1, 0],
       line_attrs = Some \<lparr>c_ispeed = B57600, c_ospeed = B57600, csize = 8, parenb = False,
         cstopb = False, clocal = True, cread = True, processing = False\<rparr>\<rparr>,
      [Lock, SysOpen ''/dev/ttyUSB0'', SysTcgetattr 3,
       SysTcsetattr 3 \<lparr>c_ispeed = B57600, c_ospeed = B57600, csize = 8, parenb = False,
         cstopb = False, clocal = True, cread = True, processing = False\<rparr>,
       SysTcflush 3, Log INFO ''Opened port'', Unlock]) \<and>
   bps B57600 = 57600 \<and>
   line_attrs (fst (snd (snd (openPort \<lparr>open_ok = True, getattr = Some example_tty, setattr_ok = True\<rparr>
       ''/dev/ttyUSB0'' 230400 JFiComm_new \<lparr>open_fds = [2, 1, 0], line_attrs = None\<rparr>)))) =
     Some \<lparr>c_ispeed = B115200, c_ospeed = B115200, csize = 8, parenb = False,
         cstopb = False, clocal = True, cread = True, processing = False\<rparr>"
proof -
  have "lowest_free [2, 1, 0] = 3"
    by code_simp
  then have l: "lowest_free [2, Suc 0, 0] = 3"
    by simp
  have h: "fd JFiComm_new < 0"
    "open_ok \<lparr>open_ok = True, getattr = Some example_tty, setattr_ok = True\<rparr>"
    "getattr \<lparr>open_ok = True, getattr = Some example_tty, setattr_ok = True\<rparr> = Some example_tty"
    "setattr_ok \<lparr>open_ok = True, getattr = Some example_tty, setattr_ok = True\<rparr>"
    by (simp_all add: JFiComm_new_def)
  have c: "configure_tty 57600 example_tty =
      \<lparr>c_ispeed = B57600, c_ospeed = B57600, csize = 8, parenb = False,
         cstopb = False, clocal = True, cread = True, processing = False\<rparr>"
     "configure_tty 230400 example_tty =
      \<lparr>c_ispeed = B115200, c_ospeed = B115200, csize = 8, parenb = False,
         cstopb = False, clocal = True, cread = True, processing = False\<rparr>"
    by (simp_all add: configure_tty_def example_tty_def baud_to_speed_def cfsetospeed_def
        cfsetispeed_def cfmakeraw_def Let_def)
  show ?thesis
    using C4_applied_baud_rate [OF h, of "''/dev/ttyUSB0''" 57600
        "\<lparr>open_fds = [2, 1, 0], line_attrs = None\<rparr>"]
      C4_applied_baud_rate [OF h, of "''/dev/ttyUSB0''" 230400
        "\<lparr>open_fds = [2, 1, 0], line_attrs = None\<rparr>"]
    by (simp add: openPort_def sys_open_def sys_tcsetattr_def l c JFiComm_new_def
        baud_supported_def Let_def)
qed

section \<open>Properties of the Frame Codec\<close>

lemma recv_bytes_append:
  "recv_bytes w cb p (xs @ ys) =
     (case recv_bytes w cb p xs of
        Inl e \<Rightarrow> Inl e
      | Inr (p1, evs) \<Rightarrow>
          (case recv_bytes w cb p1 ys of
             Inl e \<Rightarrow> Inl e
           | Inr (p2, evs2) \<Rightarrow> Inr (p2, evs @ evs2)))"
  by (induction xs arbitrary: p) (auto split: sum.splits prod.splits option.splits)

lemma recv_payload:
  "cursor p = ReadingPayload \<Longrightarrow> xs \<noteq> [] \<Longrightarrow>
   length (payload_buf p) + length xs = expected_len p \<Longrightarrow>
   recv_bytes w cb p xs =
     Inr (p\<lparr>payload_buf := payload_buf p @ xs, cursor := VerifyingChecksum\<rparr>, [])"
proof (induction xs arbitrary: p)
  case Nil
  then show ?case by simp
next
  case (Cons c cs)
  let ?p1 = "p\<lparr>payload_buf := payload_buf p @ [c]\<rparr>"
  show ?case
  proof (cases "cs = []")
    case True
    with Cons.prems show ?thesis
      by (simp add: mavlink_parse_char_def expected_len_def Let_def)
  next
    case False
    have step: "mavlink_parse_char w c p = (None, ?p1)"
      using Cons.prems False
      by (cases cs) (simp_all add: mavlink_parse_char_def expected_len_def Let_def)
    have "recv_bytes w cb ?p1 cs =
            Inr (?p1\<lparr>payload_buf := payload_buf ?p1 @ cs, cursor := VerifyingChecksum\<rparr>, [])"
      using Cons.prems False by (intro Cons.IH) (simp_all add: expected_len_def)
    with step show ?thesis by simp
  qed
qed

lemma recv_header:
  assumes "unat l \<noteq> 0"
  shows "recv_bytes w cb (parser_idle\<lparr>cursor := ReadingHeader\<rparr>) ([l, s, c, m] @ rest) =
         recv_bytes w cb
           \<lparr>cursor = ReadingPayload, hdr_buf = [l, s, c, m], payload_buf = [], ck_buf = []\<rparr> rest"
  using assms by (simp add: mavlink_parse_char_def parser_idle_def expected_len_def)

lemma recv_checksum:
  assumes "cursor p = VerifyingChecksum" "ck_buf p = []" "hdr_buf p = [l, s, c, m]"
  shows "recv_bytes w cb p (checksum_bytes w (hdr_buf p @ payload_buf p)) =
         (case on_message w cb
                 \<lparr>msg_len = l, sysid = s, compid = c, msgid = m, payload = payload_buf p\<rparr> of
            Inl e \<Rightarrow> Inl e
          | Inr evs \<Rightarrow> Inr (parser_idle, evs))"
  using assms
  by (simp add: mavlink_parse_char_def checksum_bytes_def parsed_message_def split: sum.splits)

lemma recv_frame:
  assumes "cursor p = WaitingForStart" "payload m \<noteq> []" "unat (msg_len m) = length (payload m)"
  shows "recv_bytes w cb p (mavlink_msg_to_send_buffer w m) =
         (case on_message w cb m of Inl e \<Rightarrow> Inl e | Inr evs \<Rightarrow> Inr (parser_idle, evs))"
proof -
  let ?h = "[msg_len m, sysid m, compid m, msgid m]"
  let ?p2 = "\<lparr>cursor = ReadingPayload, hdr_buf = ?h, payload_buf = [], ck_buf = []\<rparr>"
  let ?p3 = "\<lparr>cursor = VerifyingChecksum, hdr_buf = ?h, payload_buf = payload m, ck_buf = []\<rparr>"
  let ?ck = "checksum_bytes w (?h @ payload m)"
  have nz: "unat (msg_len m) \<noteq> 0" using assms by simp
  have start: "recv_bytes w cb p (mavlink_msg_to_send_buffer w m) =
        recv_bytes w cb (parser_idle\<lparr>cursor := ReadingHeader\<rparr>) (?h @ (payload m @ ?ck))"
    using assms(1)
    by (simp add: mavlink_msg_to_send_buffer_def header_bytes_def mavlink_parse_char_def)
  have hdr: "recv_bytes w cb (parser_idle\<lparr>cursor := ReadingHeader\<rparr>) (?h @ (payload m @ ?ck)) =
        recv_bytes w cb ?p2 (payload m @ ?ck)"
    using nz by (rule recv_header)
  have body: "recv_bytes w cb ?p2 (payload m) = Inr (?p3, [])"
    using recv_payload [of ?p2 "payload m" w cb] assms by (simp add: expected_len_def)
  have meq: "\<lparr>msg_len = msg_len m, sysid = sysid m, compid = compid m, msgid = msgid m,
               payload = payload m\<rparr> = m"
    by (cases m) simp
  have ck: "recv_bytes w cb ?p3 ?ck =
        (case on_message w cb m of Inl e \<Rightarrow> Inl e | Inr evs \<Rightarrow> Inr (parser_idle, evs))"
    using recv_checksum [of ?p3 "msg_len m" "sysid m" "compid m" "msgid m" w cb]
    by (simp add: meq)
  have "recv_bytes w cb ?p2 (payload m @ ?ck) =
        (case on_message w cb m of Inl e \<Rightarrow> Inl e | Inr evs \<Rightarrow> Inr (parser_idle, evs))"
    using body ck by (simp add: recv_bytes_append split: sum.splits)
  with start hdr show ?thesis by simp
qed


lemma send_jfi_msg_data_length: "length (jfi_data (send_jfi_msg w uninit tid data)) = DATA_CAP w"
  by (simp add: send_jfi_msg_def Let_def)

lemma send_jfi_msg_len:
  "DATA_CAP w \<le> 253 \<Longrightarrow>
   unat (jfi_len (send_jfi_msg w uninit tid data)) = min (length data) (DATA_CAP w)"
  by (simp add: send_jfi_msg_def Let_def unat_of_nat)

lemma decode_encode:
  assumes "length (jfi_data j) = DATA_CAP w"
  shows "mavlink_msg_jfi_decode w (mavlink_msg_jfi_encode w sys_id comp_id j) = j"
  using assms by (cases j) (simp add: mavlink_msg_jfi_decode_def mavlink_msg_jfi_encode_def)

lemma on_message_sent:
  assumes "DATA_CAP w \<le> 253"
  shows "on_message w (Some k)
           (mavlink_msg_jfi_encode w sys_id comp_id (send_jfi_msg w uninit tid data)) =
         Inr [Log INFO ''RECV'', Callback k (uint tid) (take (DATA_CAP w) data)]"
proof -
  let ?j = "send_jfi_msg w uninit tid data"
  have dec: "mavlink_msg_jfi_decode w (mavlink_msg_jfi_encode w sys_id comp_id ?j) = ?j"
    by (rule decode_encode) (rule send_jfi_msg_data_length)
  have n: "unat (jfi_len ?j) = min (length data) (DATA_CAP w)"
    using assms by (rule send_jfi_msg_len)
  have d: "take (min (length data) (DATA_CAP w)) (jfi_data ?j) = take (DATA_CAP w) data"
    by (simp add: send_jfi_msg_def Let_def min_def)
  have t: "jfi_tid ?j = tid"
    by (simp add: send_jfi_msg_def Let_def)
  have i: "msgid (mavlink_msg_jfi_encode w sys_id comp_id ?j) = MSG_ID_JFI w"
    by (simp add: mavlink_msg_jfi_encode_def)
  show ?thesis
    unfolding on_message_def by (simp add: i dec n d t Let_def)
qed

lemma unat_byte_of_nat: "n < 256 \<Longrightarrow> unat (of_nat n :: byte) = n"
  by (simp add: unat_of_nat)

lemma encode_msg_len:
  "msg_len (mavlink_msg_jfi_encode w sys_id comp_id j) =
   of_nat (length (payload (mavlink_msg_jfi_encode w sys_id comp_id j)))"
  by (simp add: mavlink_msg_jfi_encode_def Let_def)

lemma encode_payload_length:
  "length (payload (mavlink_msg_jfi_encode w sys_id comp_id j)) = 2 + length (jfi_data j)"
  by (simp add: mavlink_msg_jfi_encode_def Let_def)

lemma send_roundtrip:
  assumes "DATA_CAP w \<le> 253" "cursor p = WaitingForStart"
  shows "recv_bytes w (Some k) p (send_buffer w uninit s tid data) =
         Inr (parser_idle, [Log INFO ''RECV'', Callback k (uint tid) (take (DATA_CAP w) data)])"
proof -
  let ?m = "mavlink_msg_jfi_encode w (system_id s) (component_id s)
              (send_jfi_msg w uninit tid data)"
  have ne: "payload ?m \<noteq> []"
    by (simp add: mavlink_msg_jfi_encode_def)
  have "length (payload ?m) < 256"
    using assms(1) by (simp add: encode_payload_length send_jfi_msg_data_length)
  then have len: "unat (msg_len ?m) = length (payload ?m)"
    by (simp only: encode_msg_len) (rule unat_byte_of_nat)
  have "recv_bytes w (Some k) p (mavlink_msg_to_send_buffer w ?m) =
        (case on_message w (Some k) ?m of Inl e \<Rightarrow> Inl e | Inr evs \<Rightarrow> Inr (parser_idle, evs))"
    using assms(2) ne len by (rule recv_frame)
  then show ?thesis
    using on_message_sent [OF assms(1)] by (simp add: send_buffer_def)
qed



lemma openPort_no_spawn:
  "openPort r port_name baud_rate s os = (ret, s', os', evs) \<Longrightarrow> Spawn \<notin> set evs"
  by (auto simp: openPort_def Let_def split: if_splits option.splits prod.splits)




section \<open>Round trip\<close>

text \<open>
  C1. A payload no longer than the capacity, sent with tag \<open>tid\<close> under any identity
  and then fed to the Receiver Loop's byte loop from the waiting-for-start state, yields
  exactly one frame: the loop logs one reception and calls the callback once, with that tag
  and exactly those payload bytes, and the codec is back in its idle state. The bytes fed
  are the ones \<open>send\<close> writes when the port is open. The capacity is at most 253, so that
  tag, length and buffer fit the one-byte length field of the frame.
\<close>

theorem C1_roundtrip:
  assumes "DATA_CAP w \<le> 253" "length data \<le> DATA_CAP w" "cursor p = WaitingForStart"
  shows "recv_bytes w (Some k) p (send_buffer w uninit s tid data) =
           Inr (parser_idle, [Log INFO ''RECV'', Callback k (uint tid) data]) \<and>
         (0 \<le> fd s \<longrightarrow>
            SysWrite (fd s) (send_buffer w uninit s tid data)
              \<in> set (send w uninit written s tid data))"
proof -
  have "take (DATA_CAP w) data = data"
    using assms(2) by simp
  then have "recv_bytes w (Some k) p (send_buffer w uninit s tid data) =
           Inr (parser_idle, [Log INFO ''RECV'', Callback k (uint tid) data])"
    using send_roundtrip [OF assms(1) assms(3), of k uninit s tid data] by simp
  moreover have "0 \<le> fd s \<longrightarrow>
            SysWrite (fd s) (send_buffer w uninit s tid data)
              \<in> set (send w uninit written s tid data)"
    by (simp add: send_def writeData_def)
  ultimately show ?thesis by simp
qed

theorem C1_roundtrip_witness:
  "DATA_CAP example_wire \<le> 253 \<and> length [1, 2, 3 :: byte] \<le> DATA_CAP example_wire \<and>
   cursor parser_idle = WaitingForStart \<and>
   send_buffer example_wire (\<lambda>_. 170) (JFiComm_new\<lparr>fd := 3\<rparr>) 7 [1, 2, 3] =
     [254, 6, 1, 1, 200, 7, 3, 1, 2, 3, 170, 138, 1] \<and>
   recv_bytes example_wire (Some 5) parser_idle [254, 6, 1, 1, 200, 7, 3, 1, 2, 3, 170, 138, 1] =
     Inr (parser_idle, [Log INFO ''RECV'', Callback 5 7 [1, 2, 3]])"
proof -
  have b: "send_buffer example_wire (\<lambda>_. 170) (JFiComm_new\<lparr>fd := 3\<rparr>) 7 [1, 2, 3] =
     [254, 6, 1, 1, 200, 7, 3, 1, 2, 3, 170, 138, 1]"
    by code_simp
  have h1: "DATA_CAP example_wire \<le> 253" by (simp add: example_wire_def)
  have h2: "length [1, 2, 3 :: byte] \<le> DATA_CAP example_wire" by (simp add: example_wire_def)
  have h3: "cursor parser_idle = WaitingForStart" by (simp add: parser_idle_def)
  from C1_roundtrip [OF h1 h2 h3, of 5 "\<lambda>_. 170" "JFiComm_new\<lparr>fd := 3\<rparr>" 7 0]
  show ?thesis using b h1 h2 h3 by simp
qed

section \<open>Truncation, sending on a closed port, message filtering\<close>

text \<open>
  C2. A payload longer than the capacity is encoded all the same (the functions of the
  encode path are total): the length field of the message equals the capacity, the frame
  has the one fixed size, and feeding the frame to the Receiver Loop's byte loop from the
  waiting-for-start state yields one callback whose payload is exactly the first
  \<open>DATA_CAP\<close> bytes of the input. The capacity is at most 253.
\<close>

theorem C2_truncation:
  assumes "DATA_CAP w \<le> 253" "DATA_CAP w < length data" "cursor p = WaitingForStart"
  shows "recv_bytes w (Some k) p (send_buffer w uninit s tid data) =
           Inr (parser_idle,
                [Log INFO ''RECV'', Callback k (uint tid) (take (DATA_CAP w) data)]) \<and>
         unat (jfi_len (send_jfi_msg w uninit tid data)) = DATA_CAP w \<and>
         send_buffer w uninit s tid data ! 6 = of_nat (DATA_CAP w) \<and>
         length (send_buffer w uninit s tid data) = DATA_CAP w + 9"
proof -
  have a: "recv_bytes w (Some k) p (send_buffer w uninit s tid data) =
           Inr (parser_idle,
                [Log INFO ''RECV'', Callback k (uint tid) (take (DATA_CAP w) data)])"
    using assms(1) assms(3) by (rule send_roundtrip)
  have b: "unat (jfi_len (send_jfi_msg w uninit tid data)) = DATA_CAP w"
    using send_jfi_msg_len [OF assms(1), of uninit tid data] assms(2) by simp
  have c: "send_buffer w uninit s tid data ! 6 = of_nat (DATA_CAP w)"
    using assms(2)
    by (simp add: send_buffer_def mavlink_msg_to_send_buffer_def header_bytes_def
        mavlink_msg_jfi_encode_def send_jfi_msg_def Let_def min_def)
  have d: "length (send_buffer w uninit s tid data) = DATA_CAP w + 9"
    by (simp add: send_buffer_def mavlink_msg_to_send_buffer_def header_bytes_def
        checksum_bytes_def encode_payload_length send_jfi_msg_data_length)
  from a b c d show ?thesis by simp
qed

theorem C2_truncation_witness:
  "DATA_CAP example_wire \<le> 253 \<and> DATA_CAP example_wire < length [1, 2, 3, 4, 5, 6 :: byte] \<and>
   cursor parser_idle = WaitingForStart \<and>
   send_buffer example_wire (\<lambda>_. 170) JFiComm_new 7 [1, 2, 3, 4, 5, 6] =
     [254, 6, 1, 1, 200, 7, 4, 1, 2, 3, 4, 229, 0] \<and>
   recv_bytes example_wire (Some 5) parser_idle [254, 6, 1, 1, 200, 7, 4, 1, 2, 3, 4, 229, 0] =
     Inr (parser_idle, [Log INFO ''RECV'', Callback 5 7 [1, 2, 3, 4]])"
proof -
  have b: "send_buffer example_wire (\<lambda>_. 170) JFiComm_new 7 [1, 2, 3, 4, 5, 6] =
     [254, 6, 1, 1, 200, 7, 4, 1, 2, 3, 4, 229, 0]"
    by code_simp
  have h1: "DATA_CAP example_wire \<le> 253" by (simp add: example_wire_def)
  have h2: "DATA_CAP example_wire < length [1, 2, 3, 4, 5, 6 :: byte]"
    by (simp add: example_wire_def)
  have h3: "cursor parser_idle = WaitingForStart" by (simp add: parser_idle_def)
  have t: "take (DATA_CAP example_wire) [1, 2, 3, 4, 5, 6 :: byte] = [1, 2, 3, 4]"
    by (simp add: example_wire_def)
  from C2_truncation [OF h1 h2 h3, of 5 "\<lambda>_. 170" JFiComm_new 7]
  show ?thesis using b h1 h2 h3 t by simp
qed

text \<open>
  C7. With the port not open, \<open>send\<close> returns normally for every tag and payload: the
  frame is built, \<open>writeData\<close> takes and releases the lock without calling \<open>write\<close>,
  no error is logged, and the only log line is the one \<open>send\<close> always prints.
\<close>

theorem C7_send_when_closed:
  "fd s < 0 \<Longrightarrow> send w uninit written s tid data = [Lock, Unlock, Log INFO ''PUSH'']"
  by (simp add: send_def writeData_def)

theorem C7_send_when_closed_witness:
  "fd JFiComm_new < 0 \<and>
   send example_wire (\<lambda>_. 170) 0 JFiComm_new 7 [1, 2, 3] = [Lock, Unlock, Log INFO ''PUSH'']"
  using C7_send_when_closed [of JFiComm_new example_wire "\<lambda>_. 170" 0 7 "[1, 2, 3]"]
  by (simp add: JFiComm_new_def)

text \<open>
  The dispatch of lines 80 to 90 on a frame the codec has returned: when its message id
  is not the recognized one, the loop logs a warning and does nothing else; when it is, a
  callback is registered and the length field is within the capacity, the loop logs the
  reception and calls the callback with the frame's tag and the first \<open>len\<close> bytes of
  its buffer; and a callback is only ever called for the recognized message id, and it is
  the registered one.
\<close>

lemma on_message_filtering:
  "(msgid m \<noteq> MSG_ID_JFI w \<longrightarrow> on_message w cb m = Inr [Log WARN ''Unknown message ID'']) \<and>
   (msgid m = MSG_ID_JFI w \<and> unat (jfi_len (mavlink_msg_jfi_decode w m)) \<le> DATA_CAP w \<longrightarrow>
      on_message w (Some k) m =
        Inr [Log INFO ''RECV'',
             Callback k (uint (jfi_tid (mavlink_msg_jfi_decode w m)))
               (take (unat (jfi_len (mavlink_msg_jfi_decode w m)))
                  (jfi_data (mavlink_msg_jfi_decode w m)))]) \<and>
   (\<forall>evs h t d. on_message w cb m = Inr evs \<and> Callback h t d \<in> set evs \<longrightarrow>
      msgid m = MSG_ID_JFI w \<and> cb = Some h)"
  by (auto simp: on_message_def Let_def split: if_splits option.splits)

lemma on_message_filtering_example:
  "on_message example_wire (Some 5)
     \<lparr>msg_len = 6, sysid = 1, compid = 1, msgid = 33, payload = [7, 2, 9, 8, 0, 0]\<rparr> =
     Inr [Log WARN ''Unknown message ID''] \<and>
   on_message example_wire (Some 5)
     \<lparr>msg_len = 6, sysid = 1, compid = 1, msgid = 200, payload = [7, 2, 9, 8, 0, 0]\<rparr> =
     Inr [Log INFO ''RECV'', Callback 5 7 [9, 8]]"
proof -
  let ?m = "\<lparr>msg_len = 6, sysid = 1, compid = 1, msgid = 200, payload = [7, 2, 9, 8, 0, 0]\<rparr>"
  have d: "mavlink_msg_jfi_decode example_wire ?m =
           \<lparr>jfi_tid = 7, jfi_len = 2, jfi_data = [9, 8, 0, 0]\<rparr>"
    by (simp add: mavlink_msg_jfi_decode_def example_wire_def)
  have c: "DATA_CAP example_wire = 4" "MSG_ID_JFI example_wire = 200"
    by (simp_all add: example_wire_def)
  show ?thesis
    using on_message_filtering [of
        "\<lparr>msg_len = 6, sysid = 1, compid = 1, msgid = 33, payload = [7, 2, 9, 8, 0, 0]\<rparr>"
        example_wire "Some 5" 5]
      on_message_filtering [of ?m example_wire "Some 5" 5]
    by (simp add: d c)
qed

lemma on_message_overlong:
  "msgid m = MSG_ID_JFI w \<Longrightarrow> DATA_CAP w < unat (jfi_len (mavlink_msg_jfi_decode w m)) \<Longrightarrow>
   on_message w cb m = Inl OutOfBoundsRead"
  by (simp add: on_message_def Let_def)

lemma recv_overlong_frame:
  assumes "cursor p = WaitingForStart" "payload m \<noteq> []" "unat (msg_len m) = length (payload m)"
    and "msgid m = MSG_ID_JFI w" "DATA_CAP w < unat (jfi_len (mavlink_msg_jfi_decode w m))"
  shows "recv_bytes w cb p (mavlink_msg_to_send_buffer w m) = Inl OutOfBoundsRead"
  using recv_frame [OF assms(1-3), of w cb] on_message_overlong [OF assms(4,5), of cb]
  by simp

text \<open>
  C9. The claim asks that every frame of the recognized message id that the Receiver Loop
  decodes reaches the callback with the frame's tag and payload. The loop does not do so
  for a frame whose length byte exceeds the capacity of the payload buffer: line 84 builds
  the payload from \<open>jfi_msg_.len\<close> bytes of a buffer that has fewer, a read past the end
  of the buffer, with no bound of the kind \<open>send\<close> applies at line 185. Here the capacity
  is 4 and the frame, with a valid checksum and the recognized message id 200, has tag 7
  and length byte 6: the byte loop and the loop iteration that reads these bytes end in
  the out-of-bounds read, and no callback receives the frame's payload.
\<close>

theorem C9_overlong_length_not_delivered:
  "mavlink_msg_to_send_buffer example_wire
     \<lparr>msg_len = 6, sysid = 1, compid = 1, msgid = 200, payload = [7, 6, 9, 8, 0, 0]\<rparr> =
     [254, 6, 1, 1, 200, 7, 6, 9, 8, 0, 0, 238, 0] \<and>
   on_message example_wire (Some 5)
     \<lparr>msg_len = 6, sysid = 1, compid = 1, msgid = 200, payload = [7, 6, 9, 8, 0, 0]\<rparr> =
     Inl OutOfBoundsRead \<and>
   recv_bytes example_wire (Some 5) parser_idle [254, 6, 1, 1, 200, 7, 6, 9, 8, 0, 0, 238, 0] =
     Inl OutOfBoundsRead \<and>
   recvMavLoop_iteration example_wire (ReadBytes [254, 6, 1, 1, 200, 7, 6, 9, 8, 0, 0, 238, 0])
     \<lparr>fd = 3, running = True, system_id = 1, component_id = 1, receive_callback = Some 5,
      mav_recv_thread = True\<rparr> parser_idle =
     Inl OutOfBoundsRead"
proof -
  let ?m = "\<lparr>msg_len = 6, sysid = 1, compid = 1, msgid = 200, payload = [7, 6, 9, 8, 0, 0]\<rparr>"
  let ?bs = "[254, 6, 1, 1, 200, 7, 6, 9, 8, 0, 0, 238, 0] :: byte list"
  have b: "mavlink_msg_to_send_buffer example_wire ?m = ?bs"
    by code_simp
  have d: "mavlink_msg_jfi_decode example_wire ?m =
           \<lparr>jfi_tid = 7, jfi_len = 6, jfi_data = [9, 8, 0, 0]\<rparr>"
    by (simp add: mavlink_msg_jfi_decode_def example_wire_def)
  have c: "DATA_CAP example_wire = 4" "MSG_ID_JFI example_wire = 200"
    by (simp_all add: example_wire_def)
  have o: "on_message example_wire (Some 5) ?m = Inl OutOfBoundsRead"
    by (rule on_message_overlong) (simp_all add: d c)
  have "recv_bytes example_wire (Some 5) parser_idle (mavlink_msg_to_send_buffer example_wire ?m)
          = Inl OutOfBoundsRead"
    by (rule recv_overlong_frame) (simp_all add: d c parser_idle_def)
  then have r: "recv_bytes example_wire (Some 5) parser_idle ?bs = Inl OutOfBoundsRead"
    by (simp only: b)
  have "take 256 ?bs = ?bs"
    by simp
  then have i: "recvMavLoop_iteration example_wire (ReadBytes ?bs)
     \<lparr>fd = 3, running = True, system_id = 1, component_id = 1, receive_callback = Some 5,
      mav_recv_thread = True\<rparr> parser_idle = Inl OutOfBoundsRead"
    using r by (simp add: recvMavLoop_iteration_def Let_def del: take_Cons_numeral)
  from b o r i show ?thesis by simp
qed

section \<open>Locking\<close>





section \<open>Properties of init\<close>

lemma openPort_succeeds_iff:
  "fst (openPort r port_name baud_rate s os) \<longleftrightarrow>
   0 \<le> fd s \<or> (open_ok r \<and> getattr r \<noteq> None \<and> setattr_ok r)"
  by (auto simp: openPort_def Let_def sys_open_def split: if_splits option.splits prod.splits)

lemma init_open_fails:
  assumes "fd s < 0" "\<not> open_ok r \<or> getattr r = None \<or> \<not> setattr_ok r"
  shows "\<exists>evs. init r recv_cb port_name baud_rate sys_id comp_id s os =
     (Returns False,
      s\<lparr>receive_callback := recv_cb, system_id := sys_id, component_id := comp_id, fd := -1\<rparr>,
      os, evs) \<and> Spawn \<notin> set evs"
proof -
  let ?s1 = "s\<lparr>receive_callback := recv_cb, system_id := sys_id, component_id := comp_id\<rparr>"
  obtain ret s2 os2 evs where o: "openPort r port_name baud_rate ?s1 os = (ret, s2, os2, evs)"
    by (cases "openPort r port_name baud_rate ?s1 os")
  have "\<not> fst (openPort r port_name baud_rate ?s1 os)"
    using assms by (auto simp: openPort_succeeds_iff)
  with o have f: "ret = False" by simp
  with o have "s2 = ?s1\<lparr>fd := -1\<rparr> \<and> os2 = os"
    using openPort_False [of r port_name baud_rate ?s1 os s2 os2 evs] by simp
  moreover from o have "Spawn \<notin> set evs" by (rule openPort_no_spawn)
  ultimately show ?thesis
    using o f by (simp add: init_def)
qed

text \<open>
  C6. When opening the port fails, \<open>init\<close> returns false, leaves the running flag and
  the thread object as they were (false and not joinable on a new object) and spawns no
  thread. The receiver thread is spawned if and only if \<open>openPort\<close> returned true, and
  then the running flag is set; on an object whose thread is not yet joinable \<open>init\<close>
  then returns true with the thread joinable.
\<close>

theorem C6_init_starts_loop_iff_open:
  "case init r recv_cb port_name baud_rate sys_id comp_id s os of
     (res, s', os', evs) \<Rightarrow>
       (let opened = fst (openPort r port_name baud_rate
                            (s\<lparr>receive_callback := recv_cb, system_id := sys_id,
                               component_id := comp_id\<rparr>) os)
        in (\<not> opened \<longrightarrow>
              res = Returns False \<and> running s' = running s \<and>
              mav_recv_thread s' = mav_recv_thread s \<and> Spawn \<notin> set evs) \<and>
           (Spawn \<in> set evs \<longleftrightarrow> opened) \<and>
           (opened \<longrightarrow> running s') \<and>
           (opened \<and> \<not> mav_recv_thread s \<longrightarrow> res = Returns True \<and> mav_recv_thread s'))"
proof -
  let ?s1 = "s\<lparr>receive_callback := recv_cb, system_id := sys_id, component_id := comp_id\<rparr>"
  obtain ret s2 os2 evs where o: "openPort r port_name baud_rate ?s1 os = (ret, s2, os2, evs)"
    by (cases "openPort r port_name baud_rate ?s1 os")
  then have ns: "Spawn \<notin> set evs" by (rule openPort_no_spawn)
  show ?thesis
  proof (cases ret)
    case True
    have "mav_recv_thread s2 = mav_recv_thread s"
      using o True by (auto simp: openPort_def Let_def split: if_splits option.splits prod.splits)
    with o True ns show ?thesis
      by (simp add: init_def Let_def)
  next
    case False
    with o have "s2 = ?s1\<lparr>fd := -1\<rparr>"
      using openPort_False [of r port_name baud_rate ?s1 os s2 os2 evs] by simp
    with o False ns show ?thesis
      by (simp add: init_def Let_def)
  qed
qed


theorem C6_init_starts_loop_iff_open_witness:
  "init \<lparr>open_ok = False, getattr = None, setattr_ok = False\<rparr> (Some 5) ''/dev/ttyUSB0'' 9600
       2 3 JFiComm_new \<lparr>open_fds = [2, 1, 0], line_attrs = None\<rparr> =
     (Returns False,
      \<lparr>fd = -1, running = False, system_id = 2, component_id = 3,
       receive_callback = Some 5, mav_recv_thread = False\<rparr>,
      \<lparr>open_fds = [2, 1, 0], line_attrs = None\<rparr>,
      [Lock, SysOpen ''/dev/ttyUSB0'', Log ERROR ''Failed to open'', Unlock,
       Log ERROR ''Failed to open port. Receiver thread not started.'']) \<and>
   init \<lparr>open_ok = True, getattr = Some example_tty, setattr_ok = True\<rparr> (Some 5)
       ''/dev/ttyUSB0'' 9600 2 3 JFiComm_new \<lparr>open_fds = [2, 1, 0], line_attrs = None\<rparr> =
     (Returns True,
      \<lparr>fd = 3, running = True, system_id = 2, component_id = 3,
       receive_callback = Some 5, mav_recv_thread = True\<rparr>,
      \<lparr>open_fds = [3, 2, 1, 0], line_attrs = Some (configure_tty 9600 example_tty)\<rparr>,
      [Lock, SysOpen ''/dev/ttyUSB0'', SysTcgetattr 3,
       SysTcsetattr 3 (configure_tty 9600 example_tty), SysTcflush 3,
       Log INFO ''Opened port'', Unlock, Spawn])"
proof -
  have "lowest_free [2, 1, 0] = 3"
    by code_simp
  then have l: "lowest_free [2, Suc 0, 0] = 3"
    by simp
  show ?thesis
    using C6_init_starts_loop_iff_open [where
        r = "\<lparr>open_ok = False, getattr = None, setattr_ok = False\<rparr>" and recv_cb = "Some 5"
        and port_name = "''/dev/ttyUSB0''" and baud_rate = 9600 and sys_id = 2 and comp_id = 3
        and s = JFiComm_new and os = "\<lparr>open_fds = [2, 1, 0], line_attrs = None\<rparr>"]
      C6_init_starts_loop_iff_open [where
        r = "\<lparr>open_ok = True, getattr = Some example_tty, setattr_ok = True\<rparr>"
        and recv_cb = "Some 5" and port_name = "''/dev/ttyUSB0''" and baud_rate = 9600
        and sys_id = 2 and comp_id = 3 and s = JFiComm_new
        and os = "\<lparr>open_fds = [2, 1, 0], line_attrs = None\<rparr>"]
    by (simp add: init_def openPort_def sys_open_def sys_tcsetattr_def l JFiComm_new_def
        baud_supported_def Let_def)
qed

text \<open>
  C10. When \<open>init\<close> is called on a closed port and opening fails, it returns false with
  the callback, the system id and the component id of the object already replaced by the
  arguments; the frame a later \<open>send\<close> builds carries the new system id and component
  id in its identity bytes.
\<close>

theorem C10_failed_init_overwrites:
  assumes "fd s < 0" "\<not> open_ok r \<or> getattr r = None \<or> \<not> setattr_ok r"
  shows "\<exists>s' evs.
           init r recv_cb port_name baud_rate sys_id comp_id s os = (Returns False, s', os, evs) \<and>
           receive_callback s' = recv_cb \<and> system_id s' = sys_id \<and> component_id s' = comp_id \<and>
           (\<forall>w uninit tid data.
              send_buffer w uninit s' tid data =
                mavlink_msg_to_send_buffer w
                  (mavlink_msg_jfi_encode w sys_id comp_id (send_jfi_msg w uninit tid data)) \<and>
              send_buffer w uninit s' tid data ! 2 = sys_id \<and>
              send_buffer w uninit s' tid data ! 3 = comp_id)"
proof -
  let ?s' = "s\<lparr>receive_callback := recv_cb, system_id := sys_id, component_id := comp_id,
               fd := -1\<rparr>"
  obtain evs where
    i: "init r recv_cb port_name baud_rate sys_id comp_id s os = (Returns False, ?s', os, evs)"
    using init_open_fails [OF assms] by blast
  have "send_buffer w uninit ?s' tid data ! 2 = sys_id \<and>
        send_buffer w uninit ?s' tid data ! 3 = comp_id" for w uninit tid data
    by (simp add: send_buffer_def mavlink_msg_to_send_buffer_def header_bytes_def
        mavlink_msg_jfi_encode_def Let_def)
  moreover have "send_buffer w uninit ?s' tid data =
      mavlink_msg_to_send_buffer w
        (mavlink_msg_jfi_encode w sys_id comp_id (send_jfi_msg w uninit tid data))"
    for w uninit tid data
    by (simp add: send_buffer_def)
  ultimately show ?thesis
    using i by (intro exI [of _ ?s'] exI [of _ evs]) simp
qed

theorem C10_failed_init_overwrites_witness:
  "fd JFiComm_new < 0 \<and>
   \<not> open_ok \<lparr>open_ok = False, getattr = None, setattr_ok = False\<rparr> \<and>
   init \<lparr>open_ok = False, getattr = None, setattr_ok = False\<rparr> (Some 5) ''/dev/ttyUSB0'' 9600
       2 3 JFiComm_new \<lparr>open_fds = [2, 1, 0], line_attrs = None\<rparr> =
     (Returns False,
      \<lparr>fd = -1, running = False, system_id = 2, component_id = 3,
       receive_callback = Some 5, mav_recv_thread = False\<rparr>,
      \<lparr>open_fds = [2, 1, 0], line_attrs = None\<rparr>,
      [Lock, SysOpen ''/dev/ttyUSB0'', Log ERROR ''Failed to open'', Unlock,
       Log ERROR ''Failed to open port. Receiver thread not started.'']) \<and>
   send_buffer example_wire (\<lambda>_. 170)
      \<lparr>fd = -1, running = False, system_id = 2, component_id = 3,
       receive_callback = Some 5, mav_recv_thread = False\<rparr> 7 [1, 2, 3] =
     [254, 6, 2, 3, 200, 7, 3, 1, 2, 3, 170, 141, 1]"
proof -
  have h1: "fd JFiComm_new < 0"
    by (simp add: JFiComm_new_def)
  have h2: "\<not> open_ok \<lparr>open_ok = False, getattr = None, setattr_ok = False\<rparr> \<or>
            getattr \<lparr>open_ok = False, getattr = None, setattr_ok = False\<rparr> = None \<or>
            \<not> setattr_ok \<lparr>open_ok = False, getattr = None, setattr_ok = False\<rparr>"
    by simp
  have b: "send_buffer example_wire (\<lambda>_. 170)
      \<lparr>fd = -1, running = False, system_id = 2, component_id = 3,
       receive_callback = Some 5, mav_recv_thread = False\<rparr> 7 [1, 2, 3] =
     [254, 6, 2, 3, 200, 7, 3, 1, 2, 3, 170, 141, 1]"
    by code_simp
  show ?thesis
    using C10_failed_init_overwrites [OF h1 h2, of "Some 5" "''/dev/ttyUSB0''" 9600 2 3
        "\<lparr>open_fds = [2, 1, 0], line_attrs = None\<rparr>"] b
    by (simp add: init_def openPort_def sys_open_def JFiComm_new_def Let_def)
qed

end
